theory Spec2Isabelle
  imports Complex_Main
begin

section \<open>The image viewer overlay (src/ImageViewing.tsx)\<close>

text \<open>
  The function component \<open>ImageViewing\<close> is embedded as three things: the values its hooks
  hold between renders (a record \<open>State\<close>), the element tree it returns for given props and
  hook values (the function \<open>ImageViewing\<close>), and the reaction to an event of the host
  (\<open>step\<close>): the handler found in the rendered tree is run on the state, and the effect
  registered with \<open>useEffect(..., [currentImageIndex])\<close> is run afterwards when its
  dependency has changed. A JavaScript closure that updates hook state or calls a callback
  of the caller is a function \<open>State \<Rightarrow> State\<close>; the calls made to the caller's callbacks
  are appended to the field \<open>calls\<close>, in order.

  JavaScript numbers that are pixel offsets are rationals; indices are integers. An
  optional property that is absent (\<open>undefined\<close>) is \<open>None\<close>.
\<close>

subsection \<open>Data\<close>

text \<open>\<open>ImageSource\<close>: the item type of the list (\<open>uri\<close>, \<open>type\<close>, \<open>print_button\<close> are the
  properties the component reads).\<close>

record ImageSource =
  uri :: "string option"
  type :: "string option"
  print_button :: "bool option"

text \<open>\<open>Dimensions.get("screen")\<close>, read once into the constant \<open>SCREEN\<close>; it is a
  parameter \<open>scr\<close> of everything below.\<close>

record Dimensions =
  width :: rat
  height :: rat

type_synonym ComponentType = string

text \<open>The props of the component. A callback prop is represented by whether it is supplied;
  \<open>onRequestClose\<close> is required and therefore always present. The props that are handed
  through to the modal host unchanged (\<open>presentationStyle\<close>, \<open>animationType\<close>,
  \<open>backgroundColor\<close>) play no part in any handler and are left out.\<close>

record Props =
  images :: "ImageSource list"
  imageIndex :: int
  visible :: bool
  onImageIndexChange :: bool
  swipeToCloseEnabled :: "bool option"
  doubleTapToZoomEnabled :: "bool option"
  HeaderComponent :: "ComponentType option"
  FooterComponent :: "ComponentType option"
  VideoButtonCallback :: bool
  PrintButtonCallback :: bool

text \<open>A call of one of the caller's callbacks, with its argument.\<close>

datatype call =
    Call_onRequestClose
  | Call_onImageIndexChange int
  | Call_VideoButtonCallback ImageSource
  | Call_PrintButtonCallback ImageSource

text \<open>
  The state of one mounted instance: \<open>opacity\<close> (held by \<open>useRequestClose\<close>),
  \<open>currentImageIndex\<close> (held by \<open>useImageIndexChange\<close>), \<open>barsVisible\<close> (held by
  \<open>useAnimatedComponents\<close>), \<open>imageLoaded\<close> (\<open>useState(false)\<close>), whether the ref
  \<open>imageList\<close> points to the mounted list (\<open>imageList.current\<close>), the native
  \<open>scrollEnabled\<close> property of that list, and the calls made so far.
\<close>

record State =
  opacity :: rat
  currentImageIndex :: int
  barsVisible :: bool
  imageLoaded :: bool
  imageList_current :: bool
  scrollEnabled :: bool
  calls :: "call list"

subsection \<open>The hooks\<close>

text \<open>
  The three custom hooks (hooks/useRequestClose, hooks/useImageIndexChange and
  hooks/useAnimatedComponents) are not among the sources; only their calls in
  \<open>ImageViewing\<close> are. What each holds and returns is taken from the spec.
\<close>

text \<open>Modelled from the spec: the initial \<open>opacity\<close> of \<open>useRequestClose\<close>, which is missing.
  Spec 3 and 4.3: the overlay opacity is neutral at 1.0.\<close>

definition useRequestClose_opacity :: rat where
  "useRequestClose_opacity = 1"

text \<open>Modelled from the spec: \<open>onRequestCloseEnhanced\<close>, the function that the missing
  \<open>useRequestClose(onRequestClose)\<close> returns. Spec 4.3: an explicit close action finalizes
  immediately with a fade and invokes \<open>onRequestClose\<close>.\<close>

definition onRequestCloseEnhanced :: "State \<Rightarrow> State" where
  "onRequestCloseEnhanced s = s\<lparr>opacity := 0, calls := calls s @ [Call_onRequestClose]\<rparr>"

text \<open>Modelled from the spec: the initial \<open>currentImageIndex\<close> of the missing
  \<open>useImageIndexChange(imageIndex, SCREEN)\<close>. Spec 3 and 4.4: the paging state is created
  on mount from the caller's index; the initial state is settled with
  \<open>currentIndex = initialIndex\<close>.\<close>

definition useImageIndexChange_currentImageIndex :: "int \<Rightarrow> Dimensions \<Rightarrow> int" where
  "useImageIndexChange_currentImageIndex initialIndex scr = initialIndex"

text \<open>Modelled from the spec: the index that the missing \<open>useImageIndexChange\<close> settles on.
  Spec 4.4: the new index is computed from the reported scroll offset as
  \<open>round(offset / pageWidth)\<close> and clamped to the valid range. The call in \<open>ImageViewing\<close>
  hands the hook the caller's index and the screen and nothing else, so of the valid range
  only the lower bound 0 can be expressed in it; the number of images is not known to it.\<close>

definition settledIndex :: "Dimensions \<Rightarrow> rat \<Rightarrow> int" where
  "settledIndex scr offset = max 0 (round (offset / width scr))"

text \<open>Modelled from the spec: \<open>onScroll\<close>, the handler that the missing
  \<open>useImageIndexChange\<close> returns. Spec 4.4: on a momentum-end event the index is computed
  and \<open>currentIndex\<close> is updated only if it differs from the previous value. The spec gives
  no index for a page width of 0 (the quotient is undefined); there the index is left as it
  is.\<close>

definition onScroll :: "Dimensions \<Rightarrow> rat \<Rightarrow> State \<Rightarrow> State" where
  "onScroll scr offset s =
     (if width scr = 0 then s
      else if settledIndex scr offset \<noteq> currentImageIndex s
           then s\<lparr>currentImageIndex := settledIndex scr offset\<rparr>
           else s)"

text \<open>Modelled from the spec: the two positions of the header and footer transforms of the
  missing \<open>useAnimatedComponents\<close>. Spec 3 and 4.5: the transform values go between the
  docked (on-screen) and the hidden off-screen position.\<close>

datatype transform = Docked | HiddenOffScreen

text \<open>Modelled from the spec: the initial \<open>barsVisible\<close> of the missing
  \<open>useAnimatedComponents\<close>. Spec 2 and 4.5: header and footer are hidden when an item
  becomes zoomed and restored on zoom-out; until then they are shown.\<close>

definition useAnimatedComponents_barsVisible :: bool where
  "useAnimatedComponents_barsVisible = True"

text \<open>Modelled from the spec: \<open>toggleBarsVisible\<close>, the function that the missing
  \<open>useAnimatedComponents\<close> returns. Spec 4.5: \<open>setVisible(bool)\<close> makes the given value the
  one the bars go to; the latest call wins.\<close>

definition toggleBarsVisible :: "bool \<Rightarrow> State \<Rightarrow> State" where
  "toggleBarsVisible isVisible s = s\<lparr>barsVisible := isVisible\<rparr>"

text \<open>Modelled from the spec: \<open>headerTransform\<close> of the missing \<open>useAnimatedComponents\<close>.
  Spec 3: the header offset is on-screen or off-screen based on \<open>barsVisible\<close>.\<close>

definition headerTransform :: "State \<Rightarrow> transform" where
  "headerTransform s = (if barsVisible s then Docked else HiddenOffScreen)"

text \<open>Modelled from the spec: \<open>footerTransform\<close> of the missing \<open>useAnimatedComponents\<close>.
  Spec 3: the footer offset is on-screen or off-screen based on \<open>barsVisible\<close>.\<close>

definition footerTransform :: "State \<Rightarrow> transform" where
  "footerTransform s = (if barsVisible s then Docked else HiddenOffScreen)"

subsection \<open>The effect and the handlers of \<open>ImageViewing\<close>\<close>

text \<open>The body of \<open>useEffect(() => {...}, [currentImageIndex])\<close>.\<close>

definition effect_currentImageIndex :: "Props \<Rightarrow> State \<Rightarrow> State" where
  "effect_currentImageIndex props s =
     (if onImageIndexChange props
      then s\<lparr>imageLoaded := False,
             calls := calls s @ [Call_onImageIndexChange (currentImageIndex s)]\<rparr>
      else s)"

definition onFinishLoad :: "State \<Rightarrow> State" where
  "onFinishLoad s = s\<lparr>imageLoaded := True\<rparr>"

text \<open>\<open>imageList?.current?.setNativeProps({ scrollEnabled: !isScaled })\<close> does nothing
  while the ref is not attached; \<open>toggleBarsVisible(!isScaled)\<close> follows in either case.\<close>

definition onZoom :: "bool \<Rightarrow> State \<Rightarrow> State" where
  "onZoom isScaled s =
     toggleBarsVisible (\<not> isScaled)
       (if imageList_current s then s\<lparr>scrollEnabled := \<not> isScaled\<rparr> else s)"

subsection \<open>The rendered tree\<close>

record ImageItem_props =
  item_onZoom :: "bool \<Rightarrow> State \<Rightarrow> State"
  item_onLoad :: "State \<Rightarrow> State"
  item_imageSrc :: ImageSource
  item_onRequestClose :: "State \<Rightarrow> State"
  item_swipeToCloseEnabled :: "bool option"
  item_doubleTapToZoomEnabled :: "bool option"

text \<open>What \<open>renderItem\<close> returns for one item: the \<open>ImageItem\<close>, and the \<open>onPress\<close>
  handlers of the play button and of the print button where these are rendered.\<close>

record ItemView =
  imageItem :: ImageItem_props
  playButton :: "(State \<Rightarrow> State) option"
  printButton :: "(State \<Rightarrow> State) option"

definition renderItem :: "Props \<Rightarrow> State \<Rightarrow> ImageSource \<Rightarrow> ItemView" where
  "renderItem props s imageSrc =
     \<lparr>imageItem =
        \<lparr>item_onZoom = onZoom,
         item_onLoad = onFinishLoad,
         item_imageSrc = imageSrc,
         item_onRequestClose = onRequestCloseEnhanced,
         item_swipeToCloseEnabled = swipeToCloseEnabled props,
         item_doubleTapToZoomEnabled = doubleTapToZoomEnabled props\<rparr>,
      playButton =
        (if type imageSrc = Some ''VideoMessage''
         then Some (\<lambda>s'. if VideoButtonCallback props
                          then s'\<lparr>calls := calls s' @ [Call_VideoButtonCallback imageSrc]\<rparr>
                          else s')
         else None),
      printButton =
        (if print_button imageSrc = Some True \<and> imageLoaded s
         then Some (\<lambda>s'. if PrintButtonCallback props
                          then s'\<lparr>calls := calls s' @ [Call_PrintButtonCallback imageSrc]\<rparr>
                          else s')
         else None)\<rparr>"

text \<open>The props given to \<open>VirtualizedList\<close>. \<open>images[index]\<close> is \<open>undefined\<close> out of
  range. No handler is given for any scroll event other than the momentum end.\<close>

record VirtualizedList_props =
  data :: "ImageSource list"
  windowSize :: nat
  initialNumToRender :: nat
  maxToRenderPerBatch :: nat
  initialScrollIndex :: int
  getItem :: "nat \<Rightarrow> ImageSource option"
  getItemCount :: nat
  getItemLayout :: "nat \<Rightarrow> rat \<times> rat \<times> nat"
  list_renderItem :: "ImageSource \<Rightarrow> ItemView"
  onMomentumScrollEnd :: "rat \<Rightarrow> State \<Rightarrow> State"
  keyExtractor :: "ImageSource \<Rightarrow> nat \<Rightarrow> string option"

datatype header_element =
    Header_createElement ComponentType int
  | ImageDefaultHeader "State \<Rightarrow> State"

record View =
  view_visible :: bool
  view_onRequestClose :: "State \<Rightarrow> State"
  view_opacity :: rat
  header_transform :: transform
  header :: header_element
  virtualizedList :: VirtualizedList_props
  footer_transform :: transform
  footer :: "(ComponentType \<times> int) option"

definition ImageViewing :: "Dimensions \<Rightarrow> Props \<Rightarrow> State \<Rightarrow> View" where
  "ImageViewing scr props s =
     \<lparr>view_visible = visible props,
      view_onRequestClose = onRequestCloseEnhanced,
      view_opacity = opacity s,
      header_transform = headerTransform s,
      header =
        (case HeaderComponent props of
           Some H \<Rightarrow> Header_createElement H (currentImageIndex s)
         | None \<Rightarrow> ImageDefaultHeader onRequestCloseEnhanced),
      virtualizedList =
        \<lparr>data = images props,
         windowSize = 2,
         initialNumToRender = 1,
         maxToRenderPerBatch = 1,
         initialScrollIndex = imageIndex props,
         getItem = (\<lambda>index. if index < length (images props)
                             then Some (images props ! index) else None),
         getItemCount = length (images props),
         getItemLayout = (\<lambda>index. (width scr, width scr * of_nat index, index)),
         list_renderItem = renderItem props s,
         onMomentumScrollEnd = onScroll scr,
         keyExtractor = (\<lambda>imageSrc index. uri imageSrc)\<rparr>,
      footer_transform = footerTransform s,
      footer =
        (case FooterComponent props of
           Some F \<Rightarrow> Some (F, currentImageIndex s)
         | None \<Rightarrow> None)\<rparr>"

text \<open>\<open>EnhancedImageViewing\<close>, the exported component: the element it returns is the inner
  component with a key and the props spread into it.\<close>

record element =
  key :: int
  element_props :: Props

definition EnhancedImageViewing :: "Props \<Rightarrow> element" where
  "EnhancedImageViewing props = \<lparr>key = imageIndex props, element_props = props\<rparr>"

subsection \<open>Events and the life of an instance\<close>

text \<open>
  The events the host delivers: a scroll event of the list with the horizontal content
  offset it reports, \<open>onLoad\<close>, \<open>onZoom(isZoomed)\<close> and \<open>onRequestClose\<close> of the item at
  a list position, a press on the play or the print button of the item at a position, a
  press on the close affordance of the default header, and the close request of the modal
  host. \<open>ItemLoad\<close> is the item calling the \<open>onLoad\<close> prop that \<open>renderItem\<close> hands it (the
  declaration of \<open>ImageItem\<close> among the sources lists \<open>onLoadStart\<close> and \<open>onLoadEnd\<close>; the
  item itself is not among them). An item is handed the handlers of the latest render, and
  events are delivered one at a time.
\<close>

datatype scroll_event =
  ScrollBeginDrag | Scroll | ScrollEndDrag | MomentumScrollBegin | MomentumScrollEnd

datatype event =
    ListScroll scroll_event rat
  | ItemLoad nat
  | ItemZoom nat bool
  | ItemRequestClose nat
  | PressPlay nat
  | PressPrint nat
  | PressHeaderClose
  | ModalRequestClose

text \<open>An event of an item reaches the handlers that \<open>renderItem\<close> gave to the item the
  list holds at that position; there is no item beyond \<open>getItemCount\<close>.\<close>

definition withItem :: "View \<Rightarrow> nat \<Rightarrow> (ItemView \<Rightarrow> State \<Rightarrow> State) \<Rightarrow> State \<Rightarrow> State" where
  "withItem v index f s =
     (case getItem (virtualizedList v) index of
        None \<Rightarrow> s
      | Some imageSrc \<Rightarrow> f (list_renderItem (virtualizedList v) imageSrc) s)"

definition press :: "(State \<Rightarrow> State) option \<Rightarrow> State \<Rightarrow> State" where
  "press button s = (case button of None \<Rightarrow> s | Some onPress \<Rightarrow> onPress s)"

fun deliver :: "View \<Rightarrow> event \<Rightarrow> State \<Rightarrow> State" where
  "deliver v (ListScroll MomentumScrollEnd offset) s =
     onMomentumScrollEnd (virtualizedList v) offset s"
| "deliver v (ListScroll kind offset) s = s"
| "deliver v (ItemLoad index) s = withItem v index (\<lambda>iv. item_onLoad (imageItem iv)) s"
| "deliver v (ItemZoom index isZoomed) s =
     withItem v index (\<lambda>iv. item_onZoom (imageItem iv) isZoomed) s"
| "deliver v (ItemRequestClose index) s =
     withItem v index (\<lambda>iv. item_onRequestClose (imageItem iv)) s"
| "deliver v (PressPlay index) s = withItem v index (\<lambda>iv. press (playButton iv)) s"
| "deliver v (PressPrint index) s = withItem v index (\<lambda>iv. press (printButton iv)) s"
| "deliver v PressHeaderClose s =
     (case header v of
        ImageDefaultHeader onRequestClose \<Rightarrow> onRequestClose s
      | Header_createElement H index \<Rightarrow> s)"
| "deliver v ModalRequestClose s = view_onRequestClose v s"

text \<open>One event: the handler of the current render runs, the component renders again,
  and the effect runs if \<open>currentImageIndex\<close> is no longer what it was.\<close>

definition step :: "Dimensions \<Rightarrow> Props \<Rightarrow> State \<Rightarrow> event \<Rightarrow> State" where
  "step scr props s e =
     (let s' = deliver (ImageViewing scr props s) e s
      in if currentImageIndex s' \<noteq> currentImageIndex s
         then effect_currentImageIndex props s'
         else s')"

text \<open>The first render takes every hook's initial value; committing it attaches the ref to
  the list and runs the effect once. \<open>earlier\<close> is the calls made before this instance existed.\<close>

definition initialState :: "Dimensions \<Rightarrow> Props \<Rightarrow> call list \<Rightarrow> State" where
  "initialState scr props earlier =
     \<lparr>opacity = useRequestClose_opacity,
      currentImageIndex = useImageIndexChange_currentImageIndex (imageIndex props) scr,
      barsVisible = useAnimatedComponents_barsVisible,
      imageLoaded = False,
      imageList_current = False,
      scrollEnabled = True,
      calls = earlier\<rparr>"

definition mount :: "Dimensions \<Rightarrow> Props \<Rightarrow> call list \<Rightarrow> State" where
  "mount scr props earlier =
     effect_currentImageIndex props ((initialState scr props earlier)\<lparr>imageList_current := True\<rparr>)"

definition run :: "Dimensions \<Rightarrow> Props \<Rightarrow> event list \<Rightarrow> State" where
  "run scr props es = foldl (step scr props) (mount scr props []) es"

text \<open>
  The exported component under a change of its props, as React reconciles it: the element
  returned for the new props replaces the mounted one; with the same key the instance and
  its state stay, with another key the instance is unmounted and a new one is mounted.
\<close>

record mounted =
  mounted_element :: element
  mounted_state :: State

definition mountEnhanced :: "Dimensions \<Rightarrow> Props \<Rightarrow> mounted" where
  "mountEnhanced scr props =
     \<lparr>mounted_element = EnhancedImageViewing props,
      mounted_state = mount scr (element_props (EnhancedImageViewing props)) []\<rparr>"

definition rerender :: "Dimensions \<Rightarrow> mounted \<Rightarrow> Props \<Rightarrow> mounted" where
  "rerender scr m props' =
     (if key (EnhancedImageViewing props') = key (mounted_element m)
      then m\<lparr>mounted_element := EnhancedImageViewing props'\<rparr>
      else \<lparr>mounted_element = EnhancedImageViewing props',
            mounted_state =
              mount scr (element_props (EnhancedImageViewing props'))
                (calls (mounted_state m))\<rparr>)"

definition deliverEnhanced :: "Dimensions \<Rightarrow> mounted \<Rightarrow> event \<Rightarrow> mounted" where
  "deliverEnhanced scr m e =
     m\<lparr>mounted_state := step scr (element_props (mounted_element m)) (mounted_state m) e\<rparr>"

subsection \<open>What the caller observes\<close>

text \<open>The arguments of the calls of \<open>onImageIndexChange\<close>, in order.\<close>

fun indexChangeCalls :: "call list \<Rightarrow> int list" where
  "indexChangeCalls [] = []"
| "indexChangeCalls (Call_onImageIndexChange index # cs) = index # indexChangeCalls cs"
| "indexChangeCalls (c # cs) = indexChangeCalls cs"

text \<open>The offsets of the momentum-end events among the events.\<close>

fun momentumEnds :: "event list \<Rightarrow> rat list" where
  "momentumEnds [] = []"
| "momentumEnds (ListScroll MomentumScrollEnd offset # es) = offset # momentumEnds es"
| "momentumEnds (e # es) = momentumEnds es"

text \<open>The page changes as spec 4.4 words them: each momentum end settles on the index of its
  offset, and it is a change when that index differs from the one before.\<close>

fun settledChanges :: "Dimensions \<Rightarrow> int \<Rightarrow> rat list \<Rightarrow> int list" where
  "settledChanges scr current [] = []"
| "settledChanges scr current (offset # offsets) =
     (if settledIndex scr offset \<noteq> current
      then settledIndex scr offset # settledChanges scr (settledIndex scr offset) offsets
      else settledChanges scr current offsets)"



text \<open>The keys the list gives its cells: \<open>keyExtractor(item, index)\<close> for the item at
  each position.\<close>

definition listKeys :: "VirtualizedList_props \<Rightarrow> string option list" where
  "listKeys l =
     map (\<lambda>index. case getItem l index of
                     None \<Rightarrow> None
                   | Some imageSrc \<Rightarrow> keyExtractor l imageSrc index)
       [0 ..< getItemCount l]"

subsection \<open>Sample inputs\<close>

definition photo_a :: ImageSource where
  "photo_a = \<lparr>uri = Some ''a.jpg'', type = None, print_button = Some True\<rparr>"

definition video_b :: ImageSource where
  "video_b = \<lparr>uri = Some ''b.mp4'', type = Some ''VideoMessage'', print_button = None\<rparr>"

definition photo_c :: ImageSource where
  "photo_c = \<lparr>uri = None, type = None, print_button = Some True\<rparr>"

definition phone :: Dimensions where
  "phone = \<lparr>width = 375, height = 812\<rparr>"

definition gallery :: Props where
  "gallery =
     \<lparr>images = [photo_a, video_b, photo_c],
      imageIndex = 0,
      visible = True,
      onImageIndexChange = True,
      swipeToCloseEnabled = None,
      doubleTapToZoomEnabled = None,
      HeaderComponent = None,
      FooterComponent = Some ''Footer'',
      VideoButtonCallback = True,
      PrintButtonCallback = True\<rparr>"

definition gallery_silent :: Props where
  "gallery_silent = gallery\<lparr>onImageIndexChange := False\<rparr>"

definition gallery_custom :: Props where
  "gallery_custom = gallery\<lparr>HeaderComponent := Some ''Header'', FooterComponent := None\<rparr>"

definition gallery_beyond :: Props where
  "gallery_beyond = gallery\<lparr>imageIndex := 7\<rparr>"

text \<open>A drag from the first page that comes to rest two page widths further on.\<close>

definition flick :: "event list" where
  "flick =
     [ListScroll ScrollBeginDrag 0, ListScroll Scroll 180, ListScroll Scroll 375,
      ListScroll Scroll 560, ListScroll ScrollEndDrag 600, ListScroll MomentumScrollBegin 600,
      ListScroll Scroll 740, ListScroll MomentumScrollEnd 750]"

text \<open>A session that leaves no hook value at its default.\<close>

definition session :: "event list" where
  "session =
     [ListScroll MomentumScrollEnd 750, ItemLoad 2, ItemZoom 2 True, PressHeaderClose]"


section \<open>Properties\<close>

subsection \<open>What an event does to the state\<close>

lemma deliver_ListScroll:
  "deliver (ImageViewing scr props s) (ListScroll kind offset) s =
     (if kind = MomentumScrollEnd then onScroll scr offset s else s)"
  by (cases kind) (simp_all add: ImageViewing_def)

lemma deliver_ItemLoad:
  "deliver (ImageViewing scr props s) (ItemLoad index) s =
     (if index < length (images props) then onFinishLoad s else s)"
  by (simp add: withItem_def ImageViewing_def renderItem_def)

lemma deliver_ItemZoom:
  "deliver (ImageViewing scr props s) (ItemZoom index isZoomed) s =
     (if index < length (images props) then onZoom isZoomed s else s)"
  by (simp add: withItem_def ImageViewing_def renderItem_def)

lemma deliver_ItemRequestClose:
  "deliver (ImageViewing scr props s) (ItemRequestClose index) s =
     (if index < length (images props) then onRequestCloseEnhanced s else s)"
  by (simp add: withItem_def ImageViewing_def renderItem_def)

lemma deliver_PressPlay:
  "deliver (ImageViewing scr props s) (PressPlay index) s =
     (if index < length (images props) \<and> type (images props ! index) = Some ''VideoMessage''
         \<and> VideoButtonCallback props
      then s\<lparr>calls := calls s @ [Call_VideoButtonCallback (images props ! index)]\<rparr>
      else s)"
  by (simp add: withItem_def ImageViewing_def renderItem_def press_def)

lemma deliver_PressPrint:
  "deliver (ImageViewing scr props s) (PressPrint index) s =
     (if index < length (images props) \<and> print_button (images props ! index) = Some True
         \<and> imageLoaded s \<and> PrintButtonCallback props
      then s\<lparr>calls := calls s @ [Call_PrintButtonCallback (images props ! index)]\<rparr>
      else s)"
  by (simp add: withItem_def ImageViewing_def renderItem_def press_def)

lemma deliver_PressHeaderClose:
  "deliver (ImageViewing scr props s) PressHeaderClose s =
     (if HeaderComponent props = None then onRequestCloseEnhanced s else s)"
  by (simp add: ImageViewing_def split: option.splits)

lemma deliver_ModalRequestClose:
  "deliver (ImageViewing scr props s) ModalRequestClose s = onRequestCloseEnhanced s"
  by (simp add: ImageViewing_def)

lemma step_ListScroll:
  "step scr props s (ListScroll kind offset) =
     (if kind = MomentumScrollEnd \<and> width scr \<noteq> 0
         \<and> settledIndex scr offset \<noteq> currentImageIndex s
      then effect_currentImageIndex props (s\<lparr>currentImageIndex := settledIndex scr offset\<rparr>)
      else s)"
  unfolding step_def deliver_ListScroll by (simp add: onScroll_def)

lemma step_ItemLoad:
  "step scr props s (ItemLoad index) =
     (if index < length (images props) then s\<lparr>imageLoaded := True\<rparr> else s)"
  unfolding step_def deliver_ItemLoad by (simp add: onFinishLoad_def)

lemma step_ItemZoom:
  "step scr props s (ItemZoom index isZoomed) =
     (if index < length (images props) then onZoom isZoomed s else s)"
  unfolding step_def deliver_ItemZoom by (simp add: onZoom_def toggleBarsVisible_def)

lemma step_ItemRequestClose:
  "step scr props s (ItemRequestClose index) =
     (if index < length (images props) then onRequestCloseEnhanced s else s)"
  unfolding step_def deliver_ItemRequestClose by (simp add: onRequestCloseEnhanced_def)

lemma step_PressPlay:
  "step scr props s (PressPlay index) =
     (if index < length (images props) \<and> type (images props ! index) = Some ''VideoMessage''
         \<and> VideoButtonCallback props
      then s\<lparr>calls := calls s @ [Call_VideoButtonCallback (images props ! index)]\<rparr>
      else s)"
  unfolding step_def deliver_PressPlay by simp

lemma step_PressPrint:
  "step scr props s (PressPrint index) =
     (if index < length (images props) \<and> print_button (images props ! index) = Some True
         \<and> imageLoaded s \<and> PrintButtonCallback props
      then s\<lparr>calls := calls s @ [Call_PrintButtonCallback (images props ! index)]\<rparr>
      else s)"
  unfolding step_def deliver_PressPrint by simp

lemma step_PressHeaderClose:
  "step scr props s PressHeaderClose =
     (if HeaderComponent props = None then onRequestCloseEnhanced s else s)"
  unfolding step_def deliver_PressHeaderClose by (simp add: onRequestCloseEnhanced_def)

lemma step_ModalRequestClose:
  "step scr props s ModalRequestClose = onRequestCloseEnhanced s"
  unfolding step_def deliver_ModalRequestClose by (simp add: onRequestCloseEnhanced_def)

lemmas step_event =
  step_ListScroll step_ItemLoad step_ItemZoom step_ItemRequestClose
  step_PressPlay step_PressPrint step_PressHeaderClose step_ModalRequestClose

lemmas sample_defs =
  gallery_def gallery_silent_def photo_a_def video_b_def photo_c_def phone_def

lemmas mount_defs =
  run_def mount_def initialState_def effect_currentImageIndex_def
  useRequestClose_opacity_def useImageIndexChange_currentImageIndex_def
  useAnimatedComponents_barsVisible_def

subsection \<open>Shared facts about the run of an instance\<close>

lemma indexChangeCalls_append:
  "indexChangeCalls (cs @ ds) = indexChangeCalls cs @ indexChangeCalls ds"
  by (induction cs rule: indexChangeCalls.induct) simp_all

lemma step_currentImageIndex:
  "currentImageIndex (step scr props s e) =
     (case e of
        ListScroll kind offset \<Rightarrow>
          (if kind = MomentumScrollEnd \<and> width scr \<noteq> 0 then settledIndex scr offset
           else currentImageIndex s)
      | _ \<Rightarrow> currentImageIndex s)"
  by (cases e)
     (simp_all add: step_event effect_currentImageIndex_def
        onZoom_def toggleBarsVisible_def onRequestCloseEnhanced_def)

lemma step_indexChangeCalls:
  "indexChangeCalls (calls (step scr props s e)) =
     indexChangeCalls (calls s) @
     (if onImageIndexChange props
         \<and> currentImageIndex (step scr props s e) \<noteq> currentImageIndex s
      then [currentImageIndex (step scr props s e)] else [])"
  by (cases e)
     (simp_all add: step_event effect_currentImageIndex_def indexChangeCalls_append
        onZoom_def toggleBarsVisible_def onRequestCloseEnhanced_def)

lemma foldl_step_settledChanges:
  "onImageIndexChange props \<Longrightarrow> width scr \<noteq> 0 \<Longrightarrow>
   indexChangeCalls (calls (foldl (step scr props) s es)) =
     indexChangeCalls (calls s) @ settledChanges scr (currentImageIndex s) (momentumEnds es)"
  by (induction es arbitrary: s rule: momentumEnds.induct)
     (simp_all add: step_indexChangeCalls step_currentImageIndex)

lemma length_settledChanges: "length (settledChanges scr current offsets) \<le> length offsets"
  by (induction offsets arbitrary: current) (simp_all add: le_SucI)

lemma momentumEnds_Cons_subset: "set (momentumEnds es) \<subseteq> set (momentumEnds (e # es))"
proof (cases e)
  case (ListScroll kind offset)
  then show ?thesis by (cases kind) auto
qed simp_all

lemma step_currentImageIndex_cases:
  "currentImageIndex (step scr props s e) = currentImageIndex s
   \<or> currentImageIndex (step scr props s e) \<in> settledIndex scr ` set (momentumEnds (e # es))"
proof (cases e)
  case (ListScroll kind offset)
  then show ?thesis by (cases kind) (simp_all add: step_currentImageIndex)
qed (simp_all add: step_currentImageIndex)

lemma foldl_step_currentImageIndex:
  "currentImageIndex (foldl (step scr props) s es)
     \<in> insert (currentImageIndex s) (settledIndex scr ` set (momentumEnds es))"
proof (induction es arbitrary: s)
  case Nil
  then show ?case by simp
next
  case (Cons e es)
  from Cons.IH [of "step scr props s e"]
  have "currentImageIndex (foldl (step scr props) s (e # es)) =
          currentImageIndex (step scr props s e)
        \<or> currentImageIndex (foldl (step scr props) s (e # es))
            \<in> settledIndex scr ` set (momentumEnds es)"
    by simp
  with step_currentImageIndex_cases [of scr props s e es] momentumEnds_Cons_subset [of es e]
  show ?case by auto
qed

lemma settledIndex_nonneg: "0 \<le> settledIndex scr offset"
  by (simp add: settledIndex_def)

lemma settledIndex_less:
  assumes w: "0 < width scr" and lo: "0 \<le> offset"
    and hi: "offset \<le> width scr * (of_nat n - 1)"
  shows "settledIndex scr offset < int n"
proof -
  from w lo hi have n: "0 < n"
    by (cases n) (auto simp add: mult_le_0_iff not_le)
  from w hi have "offset / width scr \<le> of_int (int n - 1)"
    by (simp add: pos_divide_le_eq mult.commute)
  then have "round (offset / width scr) \<le> round (of_int (int n - 1) :: rat)"
    by (rule round_mono)
  also have "\<dots> = int n - 1"
    by (rule round_of_int)
  finally have "round (offset / width scr) < int n"
    by simp
  with n show ?thesis by (simp add: settledIndex_def)
qed









text \<open>The sample runs, evaluated.\<close>

lemma run_gallery_mounted:
  "run phone gallery [] =
     \<lparr>opacity = 1, currentImageIndex = 0, barsVisible = True, imageLoaded = False,
      imageList_current = True, scrollEnabled = True, calls = [Call_onImageIndexChange 0]\<rparr>"
  by (simp add: sample_defs mount_defs)

lemma run_gallery_session:
  "run phone gallery session =
     \<lparr>opacity = 0, currentImageIndex = 2, barsVisible = False, imageLoaded = True,
      imageList_current = True, scrollEnabled = False,
      calls = [Call_onImageIndexChange 0, Call_onImageIndexChange 2, Call_onRequestClose]\<rparr>"
  by (simp add: sample_defs session_def mount_defs step_event settledIndex_def
      onZoom_def toggleBarsVisible_def onRequestCloseEnhanced_def)

subsection \<open>The play affordance\<close>

text \<open>
  Claim C8. For every item, \<open>renderItem\<close> renders the play button exactly when the item's
  \<open>type\<close> is \<open>"VideoMessage"\<close>; a press on the play button of such an item in the list calls
  \<open>VideoButtonCallback\<close> with that item when the callback is supplied, and leaves
  everything as it is when it is not.
\<close>

theorem play_affordance_and_callback:
  "(playButton (renderItem props s item) \<noteq> None) = (type item = Some ''VideoMessage'')
   \<and> (index < length (images props) \<and> type (images props ! index) = Some ''VideoMessage'' \<longrightarrow>
        step scr props s (PressPlay index) =
          (if VideoButtonCallback props
           then s\<lparr>calls := calls s @ [Call_VideoButtonCallback (images props ! index)]\<rparr>
           else s))"
  by (simp add: renderItem_def step_PressPlay)

theorem play_affordance_and_callback_witness:
  "((1::nat) < length (images gallery) \<and> type (images gallery ! 1) = Some ''VideoMessage'')
   \<and> playButton (renderItem gallery (run phone gallery []) (images gallery ! 1)) \<noteq> None
   \<and> calls (step phone gallery (run phone gallery []) (PressPlay 1)) =
        [Call_onImageIndexChange 0, Call_VideoButtonCallback video_b]"
proof -
  have h: "(1::nat) < length (images gallery) \<and> type (images gallery ! 1) = Some ''VideoMessage''"
    by (simp add: sample_defs)
  have c: "calls (run phone gallery []) = [Call_onImageIndexChange 0]"
    by (simp add: sample_defs mount_defs)
  have v: "VideoButtonCallback gallery" "images gallery ! 1 = video_b"
    by (simp_all add: gallery_def)
  from play_affordance_and_callback
         [of gallery "run phone gallery []" "images gallery ! 1" 1 phone] h
  have "playButton (renderItem gallery (run phone gallery []) (images gallery ! 1)) \<noteq> None"
    and "step phone gallery (run phone gallery []) (PressPlay 1) =
       (if VideoButtonCallback gallery
        then (run phone gallery [])\<lparr>calls := calls (run phone gallery []) @
               [Call_VideoButtonCallback (images gallery ! 1)]\<rparr>
        else run phone gallery [])"
    by blast+
  with h c v show ?thesis by simp
qed

subsection \<open>The print affordance and the \<open>imageLoaded\<close> flag\<close>




text \<open>
  Claim C2 at a failing input: the sample gallery without \<open>onImageIndexChange\<close>. The first
  item loads, then the list settles one page width further on: \<open>currentImageIndex\<close> goes from
  0 to 1 and \<open>imageLoaded\<close> is still set.
\<close>

theorem imageLoaded_kept_without_index_callback:
  "currentImageIndex (run phone gallery_silent [ItemLoad 0]) = 0
   \<and> imageLoaded (run phone gallery_silent [ItemLoad 0])
   \<and> currentImageIndex
        (run phone gallery_silent [ItemLoad 0, ListScroll MomentumScrollEnd 375]) = 1
   \<and> imageLoaded (run phone gallery_silent [ItemLoad 0, ListScroll MomentumScrollEnd 375])"
  by (simp add: sample_defs mount_defs step_ItemLoad step_ListScroll settledIndex_def)

subsection \<open>The index callback\<close>

text \<open>
  Claim C3, as the code has it. When \<open>onImageIndexChange\<close> is supplied (and the page width
  is positive), the callback is called once at mount with the initial index, and after that
  exactly once for each momentum-end event whose settled index differs from the index
  before it, with that settled index: the arguments of all its calls are the initial index
  followed by the page changes of the momentum-end events. No other event, in particular no
  scroll event in flight, adds a call, so there are at most one call more than momentum-end
  events.
\<close>

theorem index_callback_trace:
  "onImageIndexChange props \<and> 0 < width scr \<longrightarrow>
     indexChangeCalls (calls (run scr props es)) =
       imageIndex props # settledChanges scr (imageIndex props) (momentumEnds es)
     \<and> length (indexChangeCalls (calls (run scr props es))) \<le> 1 + length (momentumEnds es)"
proof (intro impI, elim conjE)
  assume cb: "onImageIndexChange props" and w: "0 < width scr"
  have m: "calls (mount scr props []) = [Call_onImageIndexChange (imageIndex props)]"
    "currentImageIndex (mount scr props []) = imageIndex props"
    using cb by (simp_all add: mount_defs)
  have "indexChangeCalls (calls (run scr props es)) =
       imageIndex props # settledChanges scr (imageIndex props) (momentumEnds es)"
    using cb w by (simp add: run_def foldl_step_settledChanges m)
  then show "indexChangeCalls (calls (run scr props es)) =
       imageIndex props # settledChanges scr (imageIndex props) (momentumEnds es)
     \<and> length (indexChangeCalls (calls (run scr props es))) \<le> 1 + length (momentumEnds es)"
    by (simp add: length_settledChanges)
qed

text \<open>The scenario of spec 8: a scroll that starts at index 0, passes the offset of index 1 in
  flight and momentum-ends at index 2. After the call at mount the callback is called once,
  with 2.\<close>

theorem index_callback_trace_witness:
  "(onImageIndexChange gallery \<and> 0 < width phone)
   \<and> indexChangeCalls (calls (run phone gallery flick)) = [0, 2]"
proof -
  have h: "onImageIndexChange gallery \<and> 0 < width phone"
    by (simp add: sample_defs)
  have e: "imageIndex gallery # settledChanges phone (imageIndex gallery) (momentumEnds flick)
             = [0, 2]"
    by (simp add: sample_defs flick_def settledIndex_def)
  from index_callback_trace [of gallery phone flick] h e show ?thesis by simp
qed

text \<open>
  Claim C3 as stated fails: mounting the sample gallery calls \<open>onImageIndexChange\<close> although
  no momentum-end event (no event at all) has happened, so the calls are not bounded by the
  settled page changes.
\<close>

theorem index_callback_at_mount:
  "\<not> length (indexChangeCalls (calls (run phone gallery []))) \<le> length (momentumEnds [])"
  by (simp add: sample_defs mount_defs)

subsection \<open>Zoom: the chrome and the paging of the list\<close>

text \<open>
  Claim C4. When an item of the list reports \<open>onZoom(true)\<close>, \<open>barsVisible\<close> becomes false
  and the header and footer transforms go off screen; when it reports \<open>onZoom(false)\<close>,
  \<open>barsVisible\<close> becomes true and both are docked again.
\<close>

theorem zoom_sets_bars_visible:
  "index < length (images props) \<longrightarrow>
     barsVisible (step scr props s (ItemZoom index isZoomed)) = (\<not> isZoomed)
     \<and> header_transform (ImageViewing scr props (step scr props s (ItemZoom index isZoomed))) =
         (if isZoomed then HiddenOffScreen else Docked)
     \<and> footer_transform (ImageViewing scr props (step scr props s (ItemZoom index isZoomed))) =
         (if isZoomed then HiddenOffScreen else Docked)"
  by (simp add: step_ItemZoom onZoom_def toggleBarsVisible_def ImageViewing_def
      headerTransform_def footerTransform_def)

theorem zoom_sets_bars_visible_witness:
  "(0::nat) < length (images gallery)
   \<and> \<not> barsVisible (step phone gallery (run phone gallery []) (ItemZoom 0 True))
   \<and> barsVisible (step phone gallery
         (step phone gallery (run phone gallery []) (ItemZoom 0 True)) (ItemZoom 0 False))"
proof -
  have h: "(0::nat) < length (images gallery)"
    by (simp add: gallery_def)
  from zoom_sets_bars_visible [of 0 gallery phone "run phone gallery []" True]
       zoom_sets_bars_visible [of 0 gallery phone
         "step phone gallery (run phone gallery []) (ItemZoom 0 True)" False]
       h
  show ?thesis by simp
qed




subsection \<open>List keys\<close>

text \<open>
  Claim C5, as the code has it. The key of every item is the item's \<open>uri\<close> property as it
  is, whatever the list position: the keys of the list are the \<open>uri\<close> properties of the
  images in order, and an item without \<open>uri\<close> has the undefined key. The list position is
  not used.
\<close>

theorem list_key_is_uri:
  "keyExtractor (virtualizedList (ImageViewing scr props s)) imageSrc index = uri imageSrc
   \<and> listKeys (virtualizedList (ImageViewing scr props s)) = map uri (images props)"
proof -
  have "listKeys (virtualizedList (ImageViewing scr props s)) = map uri (images props)"
    by (rule nth_equalityI) (simp_all add: listKeys_def ImageViewing_def)
  then show ?thesis by (simp add: ImageViewing_def)
qed

text \<open>
  Claim C5 as stated fails: the third item of the sample gallery has no \<open>uri\<close>; its key at
  position 2 is undefined, not a key made from the position.
\<close>

theorem missing_uri_key_undefined:
  "uri (images gallery ! 2) = None
   \<and> keyExtractor (virtualizedList (ImageViewing phone gallery (run phone gallery [])))
        (images gallery ! 2) 2 = None
   \<and> listKeys (virtualizedList (ImageViewing phone gallery (run phone gallery []))) =
        [Some ''a.jpg'', Some ''b.mp4'', None]"
  by (simp add: listKeys_def ImageViewing_def sample_defs upt_rec)

subsection \<open>The initial index\<close>

text \<open>
  Claim C6, as the code has it. The \<open>imageIndex\<close> prop is not clamped at mount: it is the
  list's \<open>initialScrollIndex\<close> as it is, and \<open>currentImageIndex\<close> starts as it. After mount
  \<open>currentImageIndex\<close> is never negative when \<open>imageIndex\<close> is not; and when \<open>imageIndex\<close> is
  within the images and every momentum-end event reports an offset between 0 and the
  offset of the last page, \<open>0 \<le> currentImageIndex < images.length\<close> holds throughout.
\<close>

theorem image_index_used_unclamped:
  "initialScrollIndex (virtualizedList (ImageViewing scr props s)) = imageIndex props
   \<and> currentImageIndex (run scr props []) = imageIndex props
   \<and> (0 \<le> imageIndex props \<longrightarrow> 0 \<le> currentImageIndex (run scr props es))
   \<and> (0 < width scr
        \<and> 0 \<le> imageIndex props \<and> imageIndex props < int (length (images props))
        \<and> (\<forall>offset \<in> set (momentumEnds es).
              0 \<le> offset \<and> offset \<le> width scr * (of_nat (length (images props)) - 1)) \<longrightarrow>
        0 \<le> currentImageIndex (run scr props es)
        \<and> currentImageIndex (run scr props es) < int (length (images props)))"
proof -
  have m: "currentImageIndex (mount scr props []) = imageIndex props"
    by (simp add: mount_defs)
  have r: "currentImageIndex (run scr props es)
             \<in> insert (imageIndex props) (settledIndex scr ` set (momentumEnds es))"
    using foldl_step_currentImageIndex [of scr props "mount scr props []" es]
    by (simp add: run_def m)
  have a: "initialScrollIndex (virtualizedList (ImageViewing scr props s)) = imageIndex props"
    by (simp add: ImageViewing_def)
  have b: "currentImageIndex (run scr props []) = imageIndex props"
    by (simp add: run_def m)
  have c: "0 \<le> imageIndex props \<longrightarrow> 0 \<le> currentImageIndex (run scr props es)"
    using r settledIndex_nonneg by auto
  have d: "0 < width scr
        \<and> 0 \<le> imageIndex props \<and> imageIndex props < int (length (images props))
        \<and> (\<forall>offset \<in> set (momentumEnds es).
              0 \<le> offset \<and> offset \<le> width scr * (of_nat (length (images props)) - 1)) \<longrightarrow>
        0 \<le> currentImageIndex (run scr props es)
        \<and> currentImageIndex (run scr props es) < int (length (images props))"
    using r settledIndex_nonneg settledIndex_less by auto
  from a b c d show ?thesis by blast
qed

theorem image_index_used_unclamped_witness:
  "0 < width phone
   \<and> 0 \<le> imageIndex gallery \<and> imageIndex gallery < int (length (images gallery))
   \<and> list_all (\<lambda>offset. 0 \<le> offset
                \<and> offset \<le> width phone * (of_nat (length (images gallery)) - 1))
       (momentumEnds flick)
   \<and> 0 \<le> currentImageIndex (run phone gallery flick)
   \<and> currentImageIndex (run phone gallery flick) < int (length (images gallery))"
proof -
  have h: "0 < width phone"
    "0 \<le> imageIndex gallery \<and> imageIndex gallery < int (length (images gallery))"
    by (simp_all add: sample_defs)
  have o: "momentumEnds flick = [750]"
    by (simp add: flick_def)
  have w: "width phone * (of_nat (length (images gallery)) - 1) = 750"
    by (simp add: sample_defs)
  from image_index_used_unclamped [of phone gallery "run phone gallery []" flick] h o w
  show ?thesis by simp
qed

text \<open>
  Claim C6 as stated fails: the sample gallery has three images; mounted with \<open>imageIndex\<close> 7
  its list gets the initial scroll index 7 and \<open>currentImageIndex\<close> is 7, both outside the
  images.
\<close>

theorem out_of_range_index_kept:
  "\<not> (0 \<le> initialScrollIndex
            (virtualizedList (ImageViewing phone gallery_beyond (run phone gallery_beyond [])))
      \<and> initialScrollIndex
            (virtualizedList (ImageViewing phone gallery_beyond (run phone gallery_beyond [])))
          < int (length (images gallery_beyond)))
   \<and> \<not> (0 \<le> currentImageIndex (run phone gallery_beyond [])
      \<and> currentImageIndex (run phone gallery_beyond []) < int (length (images gallery_beyond)))"
  by (simp add: gallery_beyond_def sample_defs mount_defs ImageViewing_def)

subsection \<open>Header and footer\<close>

text \<open>
  Claim C7. When \<open>HeaderComponent\<close> is supplied the header is that component created with
  \<open>imageIndex\<close> the current image index; when it is absent the header is the default header
  with the close action as its \<open>onRequestClose\<close>, and a press on its close affordance calls
  the caller's \<open>onRequestClose\<close>. When \<open>FooterComponent\<close> is supplied the footer is that
  component created with the current image index; otherwise there is no footer.
\<close>

theorem header_and_footer_slots:
  "(HeaderComponent props = Some H \<longrightarrow>
      header (ImageViewing scr props s) = Header_createElement H (currentImageIndex s))
   \<and> (HeaderComponent props = None \<longrightarrow>
        header (ImageViewing scr props s) = ImageDefaultHeader onRequestCloseEnhanced
        \<and> calls (step scr props s PressHeaderClose) = calls s @ [Call_onRequestClose])
   \<and> (FooterComponent props = Some F \<longrightarrow>
        footer (ImageViewing scr props s) = Some (F, currentImageIndex s))
   \<and> (FooterComponent props = None \<longrightarrow> footer (ImageViewing scr props s) = None)"
  by (simp add: ImageViewing_def step_PressHeaderClose onRequestCloseEnhanced_def)

theorem header_and_footer_slots_witness:
  "HeaderComponent gallery = None \<and> FooterComponent gallery = Some ''Footer''
   \<and> HeaderComponent gallery_custom = Some ''Header'' \<and> FooterComponent gallery_custom = None
   \<and> header (ImageViewing phone gallery (run phone gallery flick)) =
        ImageDefaultHeader onRequestCloseEnhanced
   \<and> calls (step phone gallery (run phone gallery []) PressHeaderClose) =
        [Call_onImageIndexChange 0, Call_onRequestClose]
   \<and> footer (ImageViewing phone gallery (run phone gallery session)) = Some (''Footer'', 2)
   \<and> header (ImageViewing phone gallery_custom (run phone gallery session)) =
        Header_createElement ''Header'' 2
   \<and> footer (ImageViewing phone gallery_custom (run phone gallery session)) = None"
proof -
  have h: "HeaderComponent gallery = None" "FooterComponent gallery = Some ''Footer''"
    "HeaderComponent gallery_custom = Some ''Header''" "FooterComponent gallery_custom = None"
    by (simp_all add: gallery_custom_def gallery_def)
  from header_and_footer_slots [of gallery "''Header''" phone "run phone gallery flick" "''Footer''"]
       header_and_footer_slots [of gallery "''Header''" phone "run phone gallery []" "''Footer''"]
       header_and_footer_slots [of gallery "''Header''" phone "run phone gallery session" "''Footer''"]
       header_and_footer_slots
         [of gallery_custom "''Header''" phone "run phone gallery session" "''Footer''"]
       h
  show ?thesis by (simp add: run_gallery_mounted run_gallery_session)
qed

subsection \<open>The key of the exported component\<close>

text \<open>
  Claim C9. The exported component returns the inner component with the \<open>imageIndex\<close> prop as
  its key and with the props as they are. So when the props change to ones with another
  \<open>imageIndex\<close>, the mounted instance is replaced by a newly mounted one, whatever its state
  was: the current index is the new \<open>imageIndex\<close>, \<open>imageLoaded\<close> is false, the opacity is 1,
  the bars are visible and the list scrolls.
\<close>

theorem key_change_remounts:
  "key (EnhancedImageViewing props) = imageIndex props
   \<and> element_props (EnhancedImageViewing props) = props
   \<and> (imageIndex props' \<noteq> imageIndex props \<longrightarrow>
        mounted_state
          (rerender scr \<lparr>mounted_element = EnhancedImageViewing props, mounted_state = s\<rparr> props')
          = mount scr props' (calls s)
        \<and> currentImageIndex (mount scr props' (calls s)) = imageIndex props'
        \<and> \<not> imageLoaded (mount scr props' (calls s))
        \<and> opacity (mount scr props' (calls s)) = 1
        \<and> barsVisible (mount scr props' (calls s))
        \<and> scrollEnabled (mount scr props' (calls s)))"
  by (simp add: EnhancedImageViewing_def rerender_def mount_defs)

text \<open>The theorem at the sample gallery after the sample session, when the caller changes
  \<open>imageIndex\<close> from 0 to 7.\<close>

theorem key_change_remounts_witness:
  "imageIndex gallery_beyond \<noteq> imageIndex gallery
   \<and> foldl (deliverEnhanced phone) (mountEnhanced phone gallery) session =
       \<lparr>mounted_element = EnhancedImageViewing gallery,
        mounted_state = run phone gallery session\<rparr>
   \<and> currentImageIndex (run phone gallery session) = 2
   \<and> imageLoaded (run phone gallery session)
   \<and> opacity (run phone gallery session) = 0
   \<and> \<not> barsVisible (run phone gallery session)
   \<and> \<not> scrollEnabled (run phone gallery session)
   \<and> mounted_state
        (rerender phone
           (foldl (deliverEnhanced phone) (mountEnhanced phone gallery) session) gallery_beyond) =
       \<lparr>opacity = 1, currentImageIndex = 7, barsVisible = True, imageLoaded = False,
        imageList_current = True, scrollEnabled = True,
        calls = [Call_onImageIndexChange 0, Call_onImageIndexChange 2, Call_onRequestClose,
                 Call_onImageIndexChange 7]\<rparr>"
proof -
  have h: "imageIndex gallery_beyond \<noteq> imageIndex gallery"
    by (simp add: gallery_beyond_def gallery_def)
  have p: "element_props (EnhancedImageViewing gallery) = gallery"
    by (simp add: EnhancedImageViewing_def)
  have f: "foldl (deliverEnhanced phone) (mountEnhanced phone gallery) session =
       \<lparr>mounted_element = EnhancedImageViewing gallery,
        mounted_state = run phone gallery session\<rparr>"
    by (simp add: session_def mountEnhanced_def deliverEnhanced_def run_def p)
  have n: "mount phone gallery_beyond (calls (run phone gallery session)) =
       \<lparr>opacity = 1, currentImageIndex = 7, barsVisible = True, imageLoaded = False,
        imageList_current = True, scrollEnabled = True,
        calls = [Call_onImageIndexChange 0, Call_onImageIndexChange 2, Call_onRequestClose,
                 Call_onImageIndexChange 7]\<rparr>"
    by (simp add: run_gallery_session) (simp add: gallery_beyond_def gallery_def mount_defs)
  from key_change_remounts [of gallery gallery_beyond phone "run phone gallery session"] h f n
  show ?thesis by (simp add: run_gallery_session)
qed

end
